theory Spec2Isabelle
  imports Complex_Main "HOL-Library.Word" "HOL-Library.Sublist"
begin

section \<open>OSARA parameter dialogs: FX iteration, FX names, parameters, value snapping\<close>

text \<open>
  The definitions follow \<^verbatim>\<open>src/paramsUi.cpp\<close> and \<^verbatim>\<open>src/fxChain.cpp\<close>.
  A C++ \<^verbatim>\<open>int\<close> is a 32-bit word whose comparisons are signed (signed
  overflow, undefined in C++, wraps around), an \<^verbatim>\<open>unsigned int\<close> is a
  32-bit word, a \<^verbatim>\<open>std::string\<close> or a C string is a \<^typ>\<open>string\<close>.
  A \<^verbatim>\<open>double\<close> is the \<^typ>\<open>real\<close> it holds, and an operation on doubles
  is its exact result, except where \<^verbatim>\<open>FxParam\<close> truncates a quotient to an
  int: there the operations are the machine's, which round. Infinities and NaN are
  outside the model. The REAPER host functions are not part of the repository;
  each one a definition calls is a field of a record of host functions, or an
  argument.
\<close>

subsection \<open>FxIterator\<close>

type_synonym int32 = "32 word"

record StackItem =
  indexInContainer :: int32
  containerCount :: int32
  containerFxIndex :: int32
  multiplier :: int32

text \<open>
  The host as the iterator sees it: \<^verbatim>\<open>TrackFX_GetCount\<close> or
  \<^verbatim>\<open>TakeFX_GetCount\<close>, \<^verbatim>\<open>TrackFX_GetRecCount\<close>, and
  \<^verbatim>\<open>atoi\<close> of the \<^verbatim>\<open>container_count\<close> named config parameter at a
  flat index (the buffer starts as "0", so a failed query reads 0).
  \<open>isTrack\<close> is the template test \<^verbatim>\<open>is_same_v<ReaperObj, MediaTrack*>\<close>.
\<close>

record FxHost =
  isTrack :: bool
  FX_GetCount :: int32
  TrackFX_GetRecCount :: int32
  container_count :: "int32 \<Rightarrow> int32"

text \<open>
  The vector \<^verbatim>\<open>stack\<close> is a list whose head is \<^verbatim>\<open>stack.back()\<close>.
\<close>

record FxIterator =
  rec :: bool
  fxIndex :: int32
  containedCount :: int32
  stack :: "StackItem list"

definition newStackItem :: StackItem where
  "newStackItem =
     \<lparr>indexInContainer = 0, containerCount = 0, containerFxIndex = 0, multiplier = 1\<rparr>"

definition FxIterator_init :: "FxHost \<Rightarrow> FxIterator" where
  "FxIterator_init h =
     \<lparr>rec = False, fxIndex = - 1, containedCount = 0,
      stack = [newStackItem\<lparr>indexInContainer := - 1, containerCount := FX_GetCount h\<rparr>]\<rparr>"

text \<open>
  \<^verbatim>\<open>success()\<close> reads \<^verbatim>\<open>stack.back()\<close>; on an empty vector that is
  undefined behaviour, here \<open>None\<close>.
\<close>

definition success :: "FxHost \<Rightarrow> FxIterator \<Rightarrow> (bool \<times> FxIterator) option" where
  "success h it =
     (case stack it of
        [] \<Rightarrow> None
      | item # _ \<Rightarrow>
          let base = (if rec it then 0x1000000 else 0);
              i = (if length (stack it) = 1
                   then base + indexInContainer item
                   else base + ((indexInContainer item + 1) * multiplier item
                                + containerFxIndex item))
          in Some (True, it\<lparr>fxIndex := i, containedCount := container_count h i\<rparr>))"

definition firstRec :: "FxHost \<Rightarrow> FxIterator \<Rightarrow> (bool \<times> FxIterator) option" where
  "firstRec h it =
     (let count = TrackFX_GetRecCount h
      in if 0 <s count
         then success h (it\<lparr>rec := True,
                 stack := newStackItem\<lparr>indexInContainer := 0, containerCount := count\<rparr>
                          # stack it\<rparr>)
         else Some (False, it))"

text \<open>
  The \<^verbatim>\<open>for (;;)\<close> loop of \<^verbatim>\<open>next()\<close>: advance the cursor of the top
  frame, and pop the frame when the cursor leaves it. The result is the stack at
  the loop's exit; it is empty exactly when the loop ended by \<^verbatim>\<open>break\<close>.
\<close>

fun walk :: "StackItem list \<Rightarrow> StackItem list" where
  "walk [] = []"
| "walk (current # below) =
     (let current' = current\<lparr>indexInContainer := indexInContainer current + 1\<rparr>
      in if indexInContainer current' <s containerCount current'
         then current' # below
         else walk below)"

definition next_fx :: "FxHost \<Rightarrow> FxIterator \<Rightarrow> (bool \<times> FxIterator) option" where
  "next_fx h it =
     (case stack it of
        [] \<Rightarrow> None
      | current # _ \<Rightarrow>
          if containedCount it \<noteq> 0
          then let sub = newStackItem
                 \<lparr>containerCount := containedCount it,
                  containerFxIndex :=
                    (if length (stack it) = 1
                     then 0x2000000 + indexInContainer current + 1
                     else fxIndex it),
                  multiplier := multiplier current * (containerCount current + 1)\<rparr>
               in success h (it\<lparr>stack := sub # stack it\<rparr>)
          else (case walk (stack it) of
                  [] \<Rightarrow> if isTrack h \<and> \<not> rec it
                        then firstRec h (it\<lparr>stack := []\<rparr>)
                        else Some (False, it\<lparr>stack := []\<rparr>)
                | st \<Rightarrow> success h (it\<lparr>stack := st\<rparr>)))"

definition getFxIndex :: "FxIterator \<Rightarrow> int32" where
  "getFxIndex it = fxIndex it"

definition isContainer :: "FxIterator \<Rightarrow> bool" where
  "isContainer it = (containedCount it \<noteq> 0)"

definition getLevel :: "FxIterator \<Rightarrow> nat" where
  "getLevel it = length (stack it)"


text \<open>
  The caller's loop \<^verbatim>\<open>while (iter.next())\<close> of \<^verbatim>\<open>fxParams_begin\<close>,
  cut after \<open>n\<close> calls: the iterator states at the successive yields.
\<close>

fun run :: "nat \<Rightarrow> FxHost \<Rightarrow> FxIterator \<Rightarrow> FxIterator list" where
  "run 0 h it = []"
| "run (Suc n) h it =
     (case next_fx h it of
        Some (True, it') \<Rightarrow> it' # run n h it'
      | _ \<Rightarrow> [])"

text \<open>
  What a caller can observe at a yield: the sibling positions from the root frame to
  the current one, the level, the flat index and the container flag.
\<close>

definition path :: "FxIterator \<Rightarrow> int32 list" where
  "path it = rev (map indexInContainer (stack it))"

definition fxYield :: "FxIterator \<Rightarrow> int32 list \<times> nat \<times> int32 \<times> bool" where
  "fxYield it = (path it, getLevel it, getFxIndex it, isContainer it)"




text \<open>
  A subject with the effects A, B, E at the top level, where B is a container of two
  effects C and D: three top-level effects, a container count of 2 at the flat index
  of B (its top-level position 1) and 0 everywhere else, no input/monitor effects.
  \<open>t\<close> tells whether the subject is a track or a take.
\<close>

definition fxExample :: "bool \<Rightarrow> FxHost" where
  "fxExample t = \<lparr>isTrack = t, FX_GetCount = 3, TrackFX_GetRecCount = 0,
      container_count = (\<lambda>i. if i = 1 then 2 else 0)\<rparr>"

subsection \<open>Printing an int\<close>

text \<open>
  \<^verbatim>\<open>ostream << int\<close> and \<^verbatim>\<open>format("{}", int)\<close>: the decimal digits, most
  significant first, after a minus sign for a negative number.
\<close>

definition digit_char :: "nat \<Rightarrow> char" where
  "digit_char d = ''0123456789'' ! d"

fun decimal :: "nat \<Rightarrow> string" where
  "decimal n = (if n < 10 then [digit_char n]
                else decimal (n div 10) @ [digit_char (n mod 10)])"

declare decimal.simps [simp del]

definition show_int :: "int32 \<Rightarrow> string" where
  "show_int i = (if sint i < 0 then CHR ''-'' # decimal (nat (- sint i))
                 else decimal (nat (sint i)))"

subsection \<open>Param and the functions outside the repository\<close>

text \<open>
  \<^verbatim>\<open>class Param\<close>: the data members and the virtual functions. \<open>'h\<close> is the
  state of the host, which the functions read and write. The members
  \<^verbatim>\<open>min\<close> and \<^verbatim>\<open>max\<close> are \<open>minP\<close> and \<open>maxP\<close>.
\<close>

record 'h Param =
  minP :: real
  maxP :: real
  step :: real
  largeStep :: real
  isEditable :: bool
  getValue :: "'h \<Rightarrow> real"
  getValueText :: "'h \<Rightarrow> real \<Rightarrow> string"
  getValueForEditing :: "'h \<Rightarrow> string"
  setValue :: "real \<Rightarrow> 'h \<Rightarrow> 'h"
  setValueFromEdited :: "string \<Rightarrow> 'h \<Rightarrow> 'h"

text \<open>
  Functions of REAPER, WDL, OSARA's other files and the C++ library that the
  parameter classes call: \<^verbatim>\<open>translate\<close>, \<^verbatim>\<open>mkvolstr\<close>,
  \<^verbatim>\<open>mkpanstr\<close>, \<^verbatim>\<open>parsepanstr\<close>, \<^verbatim>\<open>formatTime(value, TF_RULER, true)\<close>,
  \<^verbatim>\<open>format_timestr_pos\<close> and \<^verbatim>\<open>parse_timestr_pos\<close> with mode -1,
  \<^verbatim>\<open>atof\<close>, the macro \<^verbatim>\<open>DB2VAL\<close>, and the text an \<^verbatim>\<open>ostringstream\<close>
  set to \<^verbatim>\<open>fixed\<close> with a precision gives for a double. The last three are
  the machine's subtraction, division and multiplication of doubles, each giving
  the double its exact result is rounded to.
\<close>

record Externals =
  translate :: "string \<Rightarrow> string"
  mkvolstr :: "real \<Rightarrow> string"
  mkpanstr :: "real \<Rightarrow> string"
  parsepanstr :: "string \<Rightarrow> real"
  formatTime :: "real \<Rightarrow> string"
  format_timestr_pos :: "real \<Rightarrow> string"
  parse_timestr_pos :: "string \<Rightarrow> real"
  atof :: "string \<Rightarrow> real"
  DB2VAL :: "real \<Rightarrow> real"
  fixed :: "nat \<Rightarrow> real \<Rightarrow> string"
  dsub :: "real \<Rightarrow> real \<Rightarrow> real"
  ddiv :: "real \<Rightarrow> real \<Rightarrow> real"
  dmul :: "real \<Rightarrow> real \<Rightarrow> real"

text \<open>
  \<^verbatim>\<open>Param()\<close> sets \<^verbatim>\<open>isEditable\<close>, and the base class gives a body to
  \<^verbatim>\<open>getValueForEditing\<close> and \<^verbatim>\<open>setValueFromEdited\<close>. The numbers, which
  the base constructor leaves unset, and the pure virtual functions have
  placeholders here; every derived constructor stores its own.
\<close>

definition Param_base :: "'h Param" where
  "Param_base =
     \<lparr>minP = 0, maxP = 0, step = 0, largeStep = 0, isEditable = False,
      getValue = (\<lambda>s. 0), getValueText = (\<lambda>s v. []),
      getValueForEditing = (\<lambda>s. []),
      setValue = (\<lambda>v s. s), setValueFromEdited = (\<lambda>t s. s)\<rparr>"

subsection \<open>Parameters of REAPER objects\<close>

text \<open>
  \<^verbatim>\<open>ReaperObjParamProvider::getSetValue\<close> reads one field of a host object when
  its argument is null and writes it otherwise.
\<close>

record ('h, 'v) ReaperObjParamProvider =
  getSetValue_get :: "'h \<Rightarrow> 'v"
  getSetValue_set :: "'v \<Rightarrow> 'h \<Rightarrow> 'h"

definition ReaperObjToggleParam ::
  "Externals \<Rightarrow> ('h, bool) ReaperObjParamProvider \<Rightarrow> 'h Param" where
  "ReaperObjToggleParam x provider =
     Param_base
       \<lparr>minP := 0, maxP := 1, step := 1, largeStep := 1,
        getValue := (\<lambda>s. if getSetValue_get provider s then 1 else 0),
        getValueText := (\<lambda>s v. if v \<noteq> 0 then translate x ''on'' else translate x ''off''),
        setValue := (\<lambda>v s. getSetValue_set provider (v \<noteq> 0) s)\<rparr>"

text \<open>
  \<^verbatim>\<open>ReaperObjVolParam\<close>. The member \<^verbatim>\<open>flipSign\<close> is false while the
  constructor reads the value, and becomes true when the raw value is negative.
\<close>

definition ReaperObjVolParam_getValue ::
  "('h, real) ReaperObjParamProvider \<Rightarrow> bool \<Rightarrow> 'h \<Rightarrow> real" where
  "ReaperObjVolParam_getValue provider flipSign s =
     (let result = getSetValue_get provider s
      in if flipSign then - result else result)"

definition ReaperObjVolParam_setValue ::
  "('h, real) ReaperObjParamProvider \<Rightarrow> bool \<Rightarrow> real \<Rightarrow> 'h \<Rightarrow> 'h" where
  "ReaperObjVolParam_setValue provider flipSign v s =
     (if flipSign then getSetValue_set provider (- v) s
      else getSetValue_set provider v s)"

definition ReaperObjVolParam_setValueFromEdited ::
  "Externals \<Rightarrow> ('h, real) ReaperObjParamProvider \<Rightarrow> bool \<Rightarrow> string \<Rightarrow> 'h \<Rightarrow> 'h" where
  "ReaperObjVolParam_setValueFromEdited x provider flipSign text s =
     (if take 4 text = ''-inf''
      then ReaperObjVolParam_setValue provider flipSign 0 s
      else let db = atof x text
           in ReaperObjVolParam_setValue provider flipSign (DB2VAL x db) s)"

definition ReaperObjVolParam_flipSign :: "('h, real) ReaperObjParamProvider \<Rightarrow> 'h \<Rightarrow> bool" where
  "ReaperObjVolParam_flipSign provider s =
     (ReaperObjVolParam_getValue provider False s < 0)"

definition ReaperObjVolParam ::
  "Externals \<Rightarrow> ('h, real) ReaperObjParamProvider \<Rightarrow> 'h \<Rightarrow> 'h Param" where
  "ReaperObjVolParam x provider s0 =
     (let flipSign = ReaperObjVolParam_flipSign provider s0
      in Param_base
       \<lparr>minP := 0, maxP := 4, step := 0.002, largeStep := 0.1, isEditable := True,
        getValue := ReaperObjVolParam_getValue provider flipSign,
        getValueText := (\<lambda>s v. mkvolstr x v),
        getValueForEditing :=
          (\<lambda>s. mkvolstr x (ReaperObjVolParam_getValue provider flipSign s)),
        setValue := ReaperObjVolParam_setValue provider flipSign,
        setValueFromEdited := ReaperObjVolParam_setValueFromEdited x provider flipSign\<rparr>)"

definition ReaperObjPanParam ::
  "Externals \<Rightarrow> ('h, real) ReaperObjParamProvider \<Rightarrow> 'h Param" where
  "ReaperObjPanParam x provider =
     Param_base
       \<lparr>minP := - 1, maxP := 1, step := 0.01, largeStep := 0.1, isEditable := True,
        getValue := getSetValue_get provider,
        getValueText := (\<lambda>s v. mkpanstr x v),
        getValueForEditing := (\<lambda>s. mkpanstr x (getSetValue_get provider s)),
        setValue := getSetValue_set provider,
        setValueFromEdited := (\<lambda>text s. getSetValue_set provider (parsepanstr x text) s)\<rparr>"

text \<open>
  \<^verbatim>\<open>ReaperObjLenParam\<close>. \<^verbatim>\<open>formatTime\<close> returns nothing for a text equal
  to that of its last call, and \<^verbatim>\<open>getValueText\<close> then returns the text it
  cached at that call; \<open>formatTime x\<close> stands for the text before that suppression,
  which is what \<^verbatim>\<open>getValueText\<close> returns in both cases. The call of
  \<^verbatim>\<open>resetTimeCache\<close> in the constructor belongs to that cache.
\<close>

definition ReaperObjLenParam ::
  "Externals \<Rightarrow> ('h, real) ReaperObjParamProvider \<Rightarrow> 'h Param" where
  "ReaperObjLenParam x provider =
     Param_base
       \<lparr>minP := 0, maxP := 500, step := 0.02, largeStep := 10, isEditable := True,
        getValue := getSetValue_get provider,
        getValueText := (\<lambda>s v. formatTime x v),
        getValueForEditing := (\<lambda>s. format_timestr_pos x (getSetValue_get provider s)),
        setValue := getSetValue_set provider,
        setValueFromEdited :=
          (\<lambda>text s. getSetValue_set provider (parse_timestr_pos x text) s)\<rparr>"

subsection \<open>FX parameters\<close>

text \<open>
  The functions \<^verbatim>\<open>FxParams\<close> fetches by name (\<^verbatim>\<open>TrackFX_*\<close> or
  \<^verbatim>\<open>TakeFX_*\<close>), for one track or take: the host state stands for the object.
  \<open>GetParam\<close> gives the value and what it writes to \<^verbatim>\<open>minvalOut\<close> and
  \<^verbatim>\<open>maxvalOut\<close>; \<open>GetParameterStepSizes\<close> gives what it writes to the step and
  to the large step, \<open>None\<close> for one it leaves as it is; \<open>FormatParamValue\<close>
  gives the text when it returns true; \<open>GetNamedConfigParm\<close> gives its result and
  what the buffer holds after the call; \<open>GetParamName\<close> gives what the buffer
  holds after the call.
\<close>

record 'h FxApi =
  GetNumParams :: "'h \<Rightarrow> int32 \<Rightarrow> int32"
  GetParamName :: "'h \<Rightarrow> int32 \<Rightarrow> int32 \<Rightarrow> string"
  GetParam :: "'h \<Rightarrow> int32 \<Rightarrow> int32 \<Rightarrow> real \<times> real \<times> real"
  GetParameterStepSizes :: "'h \<Rightarrow> int32 \<Rightarrow> int32 \<Rightarrow> real option \<times> real option"
  SetParam :: "'h \<Rightarrow> int32 \<Rightarrow> int32 \<Rightarrow> real \<Rightarrow> 'h"
  FormatParamValue :: "'h \<Rightarrow> int32 \<Rightarrow> int32 \<Rightarrow> real \<Rightarrow> string option"
  GetNamedConfigParm :: "'h \<Rightarrow> int32 \<Rightarrow> string \<Rightarrow> bool \<times> string"
  SetNamedConfigParm :: "'h \<Rightarrow> int32 \<Rightarrow> string \<Rightarrow> string \<Rightarrow> 'h"

text \<open>
  The conversion \<^verbatim>\<open>int(x)\<close> of a double truncates towards zero; it is undefined
  when the truncated value is not an \<^verbatim>\<open>int\<close>, here \<open>None\<close>.
\<close>

definition double_to_int :: "real \<Rightarrow> int option" where
  "double_to_int x =
     (let t = (if 0 \<le> x then \<lfloor>x\<rfloor> else \<lceil>x\<rceil>)
      in if - (2 ^ 31) \<le> t \<and> t < 2 ^ 31 then Some t else None)"

text \<open>
  The step sizes the constructor of \<^verbatim>\<open>FxParam\<close> settles on, from the range
  and from what the host wrote over the zeros the constructor had stored. In the
  branch that makes the large step a multiple of the step, the integer
  \<^verbatim>\<open>int(largeStep / step)\<close> depends on the last bit of the quotient, so the
  subtraction, the two divisions and the multiplication of that branch are the
  machine's.
\<close>

definition FxParam_steps ::
  "Externals \<Rightarrow> real \<Rightarrow> real \<Rightarrow> real option \<times> real option \<Rightarrow> (real \<times> real) option" where
  "FxParam_steps x mn mx sizes =
     (let step0 = (case fst sizes of None \<Rightarrow> 0 | Some v \<Rightarrow> v);
          largeStep0 = (case snd sizes of None \<Rightarrow> 0 | Some v \<Rightarrow> v)
      in if step0 \<noteq> 0
         then if largeStep0 = 0
              then let largeStep1 = ddiv x (dsub x mx mn) 50
                   in case double_to_int (ddiv x largeStep1 step0) of
                        None \<Rightarrow> None
                      | Some k \<Rightarrow>
                          let l = dmul x step0 (real_of_int k)
                          in if l = 0 then Some (step0, step0) else Some (step0, l)
              else Some (step0, largeStep0)
         else Some ((mx - mn) / 1000, (mx - mn) / 1000 * 20))"

definition FxParam ::
  "Externals \<Rightarrow> 'h FxApi \<Rightarrow> int32 \<Rightarrow> int32 \<Rightarrow> 'h \<Rightarrow> ('h Param \<times> 'h) option" where
  "FxParam x source fx_arg param s =
     (let (v, mn, mx) = GetParam source s fx_arg param
      in case FxParam_steps x mn mx (GetParameterStepSizes source s fx_arg param) of
           None \<Rightarrow> None
         | Some (st, lg) \<Rightarrow>
             let paramStr = show_int param;
                 s1 = SetNamedConfigParm source s fx_arg ''last_touched'' paramStr;
                 s2 = SetNamedConfigParm source s1 fx_arg ''focused'' ''1''
             in Some
                  (Param_base
                    \<lparr>minP := mn, maxP := mx, step := st, largeStep := lg, isEditable := True,
                     getValue := (\<lambda>s. fst (GetParam source s fx_arg param)),
                     getValueText :=
                       (\<lambda>s v. case FormatParamValue source s fx_arg param v of
                                 Some text \<Rightarrow> text | None \<Rightarrow> []),
                     getValueForEditing :=
                       (\<lambda>s. fixed x 4 (fst (GetParam source s fx_arg param))),
                     setValue := (\<lambda>v s. SetParam source s fx_arg param v),
                     setValueFromEdited :=
                       (\<lambda>text s. SetParam source s fx_arg param (atof x text))\<rparr>,
                   s2))"

text \<open>
  \<^verbatim>\<open>FxNamedConfigParam\<close>: the member \<^verbatim>\<open>values\<close>, here
  \<open>values_tbl\<close>, pairs each display name with the name to pass to the API.
\<close>

type_synonym FxNamedConfigParamValues = "(string \<times> string) list"

record 'h FxNamedConfigParam = "'h Param" +
  displayName :: string
  name :: string
  values_tbl :: FxNamedConfigParamValues

text \<open>
  The loop of \<^verbatim>\<open>getValue\<close> over the table, from the ordinal \<open>v\<close> on.
\<close>

fun FxNamedConfigParam_find :: "string \<Rightarrow> FxNamedConfigParamValues \<Rightarrow> nat \<Rightarrow> real" where
  "FxNamedConfigParam_find valueStr [] v = 0"
| "FxNamedConfigParam_find valueStr (entry # entries) v =
     (if valueStr = snd entry then real v
      else FxNamedConfigParam_find valueStr entries (Suc v))"

definition FxNamedConfigParam_getValue ::
  "'h FxApi \<Rightarrow> int32 \<Rightarrow> string \<Rightarrow> FxNamedConfigParamValues \<Rightarrow> 'h \<Rightarrow> real" where
  "FxNamedConfigParam_getValue source source_fx nm vals s =
     (let valueStr = snd (GetNamedConfigParm source s source_fx nm)
      in if valueStr = [] then 0
         else FxNamedConfigParam_find valueStr vals 0)"

text \<open>
  \<^verbatim>\<open>getValueText\<close> and \<^verbatim>\<open>setValue\<close> index the table with
  \<^verbatim>\<open>(int)value\<close>; outside the table that is undefined, and the model then
  gives no text and leaves the host as it is.
\<close>

definition FxNamedConfigParam_entry ::
  "FxNamedConfigParamValues \<Rightarrow> real \<Rightarrow> (string \<times> string) option" where
  "FxNamedConfigParam_entry vals v =
     (case double_to_int v of
        None \<Rightarrow> None
      | Some i \<Rightarrow> if 0 \<le> i \<and> nat i < length vals then Some (vals ! nat i) else None)"

text \<open>
  The constructor. It passes its own member \<^verbatim>\<open>fx\<close> to the host, which no
  initialiser sets: \<open>own_fx\<close> is whatever that member holds. The functions of the
  parameter use \<^verbatim>\<open>source.fx\<close>.
\<close>

definition FxNamedConfigParam ::
  "Externals \<Rightarrow> 'h FxApi \<Rightarrow> int32 \<Rightarrow> int32 \<Rightarrow> string \<Rightarrow> string
     \<Rightarrow> FxNamedConfigParamValues \<Rightarrow> 'h \<Rightarrow> 'h FxNamedConfigParam \<times> 'h" where
  "FxNamedConfigParam x source source_fx own_fx dispName nm vals s =
     (let s1 = SetNamedConfigParm source s own_fx ''last_touched'' ''0'';
          s2 = SetNamedConfigParm source s1 own_fx ''focused'' ''1''
      in (\<lparr>minP = 0, maxP = real (length vals) - 1, step = 1, largeStep = 1,
           isEditable = False,
           getValue = FxNamedConfigParam_getValue source source_fx nm vals,
           getValueText =
             (\<lambda>s v. case FxNamedConfigParam_entry vals v of
                       Some entry \<Rightarrow> translate x (fst entry) | None \<Rightarrow> []),
           getValueForEditing = (\<lambda>s. []),
           setValue =
             (\<lambda>v s. case FxNamedConfigParam_entry vals v of
                       Some entry \<Rightarrow> SetNamedConfigParm source s source_fx nm (snd entry)
                     | None \<Rightarrow> s),
           setValueFromEdited = (\<lambda>t s. s),
           displayName = dispName, name = nm, values_tbl = vals\<rparr>,
          s2))"

definition TOGGLE_FX_NAMED_CONFIG_PARAM_VALUES :: FxNamedConfigParamValues where
  "TOGGLE_FX_NAMED_CONFIG_PARAM_VALUES = [(''off'', ''0''), (''on'', ''1'')]"

definition REAEQ_BAND_TYPE_VALUES :: FxNamedConfigParamValues where
  "REAEQ_BAND_TYPE_VALUES =
     [(''low shelf'', ''0''), (''high shelf'', ''1''), (''band'', ''8''),
      (''low pass'', ''3''), (''high pass'', ''4''), (''all pass'', ''5''),
      (''notch'', ''6''), (''band pass'', ''7''), (''parallel band pass'', ''10''),
      (''band (alt)'', ''9''), (''band (alt 2)'', ''2'')]"

text \<open>
  \<^verbatim>\<open>FxParams\<close>, the parameter source of one effect: the effect's index, the
  named config parameters \<^verbatim>\<open>initNamedConfigParams\<close> found, and the host
  functions.
\<close>

record 'h FxParams =
  fx :: int32
  namedConfigParams :: "'h FxNamedConfigParam list"
  api :: "'h FxApi"

definition getParamCount :: "'h FxParams \<Rightarrow> 'h \<Rightarrow> int32" where
  "getParamCount src s =
     word_of_nat (length (namedConfigParams src)) + GetNumParams (api src) s (fx src)"

text \<open>
  \<^verbatim>\<open>getParamName\<close>. A negative \<^verbatim>\<open>param\<close> indexes the vector out of its
  bounds, which is undefined: \<open>None\<close>.
\<close>

definition getParamName :: "'h FxParams \<Rightarrow> 'h \<Rightarrow> int32 \<Rightarrow> string option" where
  "getParamName src s param =
     (let namedCount = (word_of_nat (length (namedConfigParams src)) :: int32)
      in if param <s namedCount
         then if 0 \<le>s param \<and> nat (sint param) < length (namedConfigParams src)
              then Some (displayName (namedConfigParams src ! nat (sint param))
                         @ '' ('' @ show_int param @ '')'')
              else None
         else Some (GetParamName (api src) s (fx src) (param - namedCount)
                    @ '' ('' @ show_int param @ '')''))"

subsection \<open>Shortened FX names\<close>







subsection \<open>ParamsDialog: the slider\<close>

text \<open>
  The members of \<^verbatim>\<open>ParamsDialog\<close> that the slider code reads and writes. What
  the dialog sends to its windows and to the screen reader is left out.
\<close>

record 'h ParamsDialog =
  param :: "'h Param"
  val :: real
  valText :: string

definition updateValueText :: "Externals \<Rightarrow> 'h ParamsDialog \<Rightarrow> 'h ParamsDialog" where
  "updateValueText x d =
     (if valText d = []
      then let percent = (val d - minP (param d)) / (maxP (param d) - minP (param d)) * 100
           in d\<lparr>valText := fixed x 1 percent @ ''%''\<rparr>
      else d)"

definition updateValue :: "Externals \<Rightarrow> 'h \<Rightarrow> 'h ParamsDialog \<Rightarrow> 'h ParamsDialog" where
  "updateValue x s d =
     updateValueText x (d\<lparr>valText := getValueText (param d) s (val d)\<rparr>)"

text \<open>
  The \<^verbatim>\<open>for\<close> loop of \<^verbatim>\<open>onSliderChange\<close>, entered with the counter
  \<open>steps\<close> and the candidate \<open>newVal\<close>; \<open>val0\<close> is \<^verbatim>\<open>this->val\<close>, which
  the loop leaves as it is unless it snaps, and the result is \<^verbatim>\<open>this->val\<close>
  after the loop. The counter is an \<^verbatim>\<open>unsigned int\<close>, which wraps around; a
  loop that never ends has no result.
\<close>

partial_function (option) snap ::
  "'h Param \<Rightarrow> 'h \<Rightarrow> string \<Rightarrow> real \<Rightarrow> real \<Rightarrow> 32 word \<Rightarrow> real \<Rightarrow> real option" where
  "snap p s vText val0 step0 steps newVal =
     (if minP p \<le> newVal \<and> newVal \<le> maxP p
      then let testText = getValueText p s newVal
           in if testText = [] then Some val0
              else if testText \<noteq> vText then Some newVal
              else snap p s vText val0 step0 (steps + 1) (val0 + step0 * real (unat steps))
      else Some val0)"

definition onSliderChange ::
  "Externals \<Rightarrow> real \<Rightarrow> 'h ParamsDialog \<times> 'h \<Rightarrow> ('h ParamsDialog \<times> 'h) option" where
  "onSliderChange x newVal ds =
     (let d = fst ds; s = snd ds; p = param d
      in if newVal = val d \<or> newVal < minP p \<or> newVal > maxP p then Some (d, s)
         else let step0 = (if newVal < val d then - step p else step p)
              in case snap p s (valText d) newVal step0 1 newVal of
                   None \<Rightarrow> None
                 | Some v \<Rightarrow>
                     let s' = setValue p v s
                     in Some (updateValue x s' (d\<lparr>val := v\<rparr>), s'))"

text \<open>
  The branch of \<^verbatim>\<open>translateAccel\<close> for a key pressed on the slider: the keys
  it handles, the value each one asks for, and the call of
  \<^verbatim>\<open>onSliderChange\<close> with that value.
\<close>

datatype SliderKey = VK_UP | VK_RIGHT | VK_DOWN | VK_LEFT | VK_PRIOR | VK_NEXT | VK_HOME | VK_END

fun sliderKeyValue :: "SliderKey \<Rightarrow> 'h ParamsDialog \<Rightarrow> real" where
  "sliderKeyValue VK_UP d = val d + step (param d)"
| "sliderKeyValue VK_RIGHT d = val d + step (param d)"
| "sliderKeyValue VK_DOWN d = val d - step (param d)"
| "sliderKeyValue VK_LEFT d = val d - step (param d)"
| "sliderKeyValue VK_PRIOR d = val d + largeStep (param d)"
| "sliderKeyValue VK_NEXT d = val d - largeStep (param d)"
| "sliderKeyValue VK_HOME d = maxP (param d)"
| "sliderKeyValue VK_END d = minP (param d)"

definition translateAccel_slider ::
  "Externals \<Rightarrow> SliderKey \<Rightarrow> 'h ParamsDialog \<times> 'h \<Rightarrow> ('h ParamsDialog \<times> 'h) option" where
  "translateAccel_slider x key ds = onSliderChange x (sliderKeyValue key (fst ds)) ds"

text \<open>
  The candidate the loop tests in its round \<open>k\<close> (the first round is round 0),
  and what makes the loop go on after a candidate: it is within the range and has
  the text of the old value.
\<close>

definition candidate :: "real \<Rightarrow> real \<Rightarrow> nat \<Rightarrow> real" where
  "candidate val0 step0 k = val0 + step0 * real k"

definition inRange :: "'h Param \<Rightarrow> real \<Rightarrow> bool" where
  "inRange p v \<longleftrightarrow> minP p \<le> v \<and> v \<le> maxP p"

definition sameText :: "'h Param \<Rightarrow> 'h \<Rightarrow> string \<Rightarrow> real \<Rightarrow> bool" where
  "sameText p s vText v \<longleftrightarrow> getValueText p s v \<noteq> [] \<and> getValueText p s v = vText"

text \<open>
  A parameter over a host that is one stored number: the range [0, 1], the step 1/4,
  and a formatter that gives the same text for every value.
\<close>

definition coarseParam :: "real Param" where
  "coarseParam =
     Param_base
       \<lparr>minP := 0, maxP := 1, step := 1 / 4, largeStep := 1 / 2,
        getValue := (\<lambda>s. s), getValueText := (\<lambda>s v. ''x''),
        setValue := (\<lambda>v s. v)\<rparr>"


text \<open>
  Dialogs on these parameters: the first shows the value \<open>v\<close> with its text, the
  second the value 0 with its text.
\<close>

definition coarseDialog :: "real \<Rightarrow> real ParamsDialog" where
  "coarseDialog v = \<lparr>param = coarseParam, val = v, valText = ''x''\<rparr>"


subsection \<open>Hosts for concrete runs\<close>

text \<open>
  Three doubles: the one nearest to 0.01, which is what a host that reports the step
  0.01 reports; twice that, which is also the double nearest to 0.02; and the one
  nearest to 8/3.
\<close>

definition double_0_01 :: real where
  "double_0_01 = 5764607523034235 / 576460752303423488"

definition double_0_02 :: real where
  "double_0_02 = 5764607523034235 / 288230376151711744"

definition double_8_3 :: real where
  "double_8_3 = 6004799503160661 / 2251799813685248"

text \<open>
  Stand-ins for the functions outside the repository, and a host whose state is
  trivial: every effect parameter is called Gain, has the range and the step sizes
  given, and every named config parameter reads the token given. The operations on
  doubles are exact but for the three quotients of the runs below that are not
  doubles, 1/50, 2/0.75 and -2/0.75, which are rounded to the nearest double as the
  machine does. The provider \<open>cellProvider\<close> is a host that is one stored
  number.
\<close>

definition exExternals :: Externals where
  "exExternals =
     \<lparr>translate = (\<lambda>t. t), mkvolstr = (\<lambda>v. []), mkpanstr = (\<lambda>v. []),
      parsepanstr = (\<lambda>t. 0), formatTime = (\<lambda>v. []), format_timestr_pos = (\<lambda>v. []),
      parse_timestr_pos = (\<lambda>t. 0), atof = (\<lambda>t. 0), DB2VAL = (\<lambda>d. 0),
      fixed = (\<lambda>n v. []),
      dsub = (\<lambda>a b. a - b),
      ddiv = (\<lambda>a b. if a = 1 \<and> b = 50 then double_0_02
                    else if a = 2 \<and> b = 3 / 4 then double_8_3
                    else if a = - 2 \<and> b = 3 / 4 then - double_8_3
                    else a / b),
      dmul = (\<lambda>a b. a * b)\<rparr>"

definition exApi :: "real \<Rightarrow> real \<Rightarrow> real option \<times> real option \<Rightarrow> string \<Rightarrow> unit FxApi" where
  "exApi mn mx sizes token =
     \<lparr>GetNumParams = (\<lambda>s f. 3),
      GetParamName = (\<lambda>s f p. ''Gain''),
      GetParam = (\<lambda>s f p. (mn, mn, mx)),
      GetParameterStepSizes = (\<lambda>s f p. sizes),
      SetParam = (\<lambda>s f p v. s),
      FormatParamValue = (\<lambda>s f p v. None),
      GetNamedConfigParm = (\<lambda>s f n. (True, token)),
      SetNamedConfigParm = (\<lambda>s f n v. s)\<rparr>"

definition exFxParams :: "unit FxParams" where
  "exFxParams = \<lparr>fx = 0, namedConfigParams = [], api = exApi 0 1 (None, None) []\<rparr>"

definition cellProvider :: "(real, real) ReaperObjParamProvider" where
  "cellProvider = \<lparr>getSetValue_get = (\<lambda>s. s), getSetValue_set = (\<lambda>v s. v)\<rparr>"


section \<open>Properties\<close>

subsection \<open>FxIterator: flat indices\<close>








lemma run_numeral:
  "run (numeral k) h it =
     (case next_fx h it of
        Some (True, it') \<Rightarrow> it' # run (pred_numeral k) h it'
      | _ \<Rightarrow> [])"
  by (simp add: numeral_eq_Suc)

lemmas fx_eval = run_numeral fxYield_def fxExample_def FxIterator_init_def next_fx_def
  success_def firstRec_def newStackItem_def path_def getLevel_def getFxIndex_def
  isContainer_def Let_def word_sless_alt



subsection \<open>FxIterator: traversal order\<close>

text \<open>
  C2. For the effect tree [A, B(container: [C, D]), E], of a track or of a take, the
  successive calls of \<^verbatim>\<open>next()\<close> yield A, B, C, D, E (the positions 0; 1; 1,0;
  1,1; 2) at the levels 1, 1, 2, 2, 1, B alone being a container, and the sixth call
  returns false. In general the call after a container was yielded returns true with
  a new frame on the stack, for the container's children, whose cursor is on the
  first child.
\<close>

theorem fx_traversal_order:
  "map fxYield (run 10 (fxExample t) (FxIterator_init (fxExample t)))
     = [([0], 1, 0, False), ([1], 1, 1, True), ([1, 0], 2, 0x2000006, False),
        ([1, 1], 2, 0x200000A, False), ([2], 1, 2, False)]
   \<and> map_option fst (next_fx (fxExample t)
         (last (run 10 (fxExample t) (FxIterator_init (fxExample t))))) = Some False
   \<and> (\<forall>h it. stack it \<noteq> [] \<and> isContainer it \<longrightarrow>
         (\<exists>it'. next_fx h it = Some (True, it') \<and> tl (stack it') = stack it
            \<and> indexInContainer (hd (stack it')) = 0
            \<and> containerCount (hd (stack it')) = containedCount it
            \<and> getLevel it' = Suc (getLevel it)))"
proof (intro conjI allI impI)
  show "map fxYield (run 10 (fxExample t) (FxIterator_init (fxExample t)))
     = [([0], 1, 0, False), ([1], 1, 1, True), ([1, 0], 2, 0x2000006, False),
        ([1, 1], 2, 0x200000A, False), ([2], 1, 2, False)]"
    by (simp add: fx_eval)
  show "map_option fst (next_fx (fxExample t)
         (last (run 10 (fxExample t) (FxIterator_init (fxExample t))))) = Some False"
    by (cases t) (simp_all add: fx_eval)
next
  fix h it
  assume a: "stack it \<noteq> [] \<and> isContainer it"
  then obtain current below where st: "stack it = current # below"
    by (cases "stack it") auto
  from a show "\<exists>it'. next_fx h it = Some (True, it') \<and> tl (stack it') = stack it
            \<and> indexInContainer (hd (stack it')) = 0
            \<and> containerCount (hd (stack it')) = containedCount it
            \<and> getLevel it' = Suc (getLevel it)"
    by (simp add: next_fx_def st success_def Let_def newStackItem_def isContainer_def
        getLevel_def)
qed

theorem fx_traversal_order_witness:
  "stack (run 2 (fxExample False) (FxIterator_init (fxExample False)) ! 1) \<noteq> []
   \<and> isContainer (run 2 (fxExample False) (FxIterator_init (fxExample False)) ! 1)
   \<and> (\<exists>it'. next_fx (fxExample False)
               (run 2 (fxExample False) (FxIterator_init (fxExample False)) ! 1)
             = Some (True, it')
          \<and> indexInContainer (hd (stack it')) = 0 \<and> getLevel it' = 2)"
proof -
  have h: "stack (run 2 (fxExample False) (FxIterator_init (fxExample False)) ! 1) \<noteq> []
     \<and> isContainer (run 2 (fxExample False) (FxIterator_init (fxExample False)) ! 1)"
    by (simp add: fx_eval)
  have l: "getLevel (run 2 (fxExample False) (FxIterator_init (fxExample False)) ! 1) = 1"
    by (simp add: fx_eval)
  from fx_traversal_order[of False]
  have "\<forall>h it. stack it \<noteq> [] \<and> isContainer it \<longrightarrow>
         (\<exists>it'. next_fx h it = Some (True, it') \<and> tl (stack it') = stack it
            \<and> indexInContainer (hd (stack it')) = 0
            \<and> containerCount (hd (stack it')) = containedCount it
            \<and> getLevel it' = Suc (getLevel it))"
    by blast
  with h obtain it' where
    "next_fx (fxExample False)
       (run 2 (fxExample False) (FxIterator_init (fxExample False)) ! 1) = Some (True, it')"
    "indexInContainer (hd (stack it')) = 0"
    "getLevel it' = Suc (getLevel (run 2 (fxExample False) (FxIterator_init (fxExample False)) ! 1))"
    by blast
  with h l show ?thesis by simp
qed

subsection \<open>Decimal text of an int\<close>

lemma of_char_digit: "d < 10 \<Longrightarrow> (of_char (digit_char d) :: nat) = 48 + d"
proof -
  assume "d < 10"
  then consider "d = 0" | "d = 1" | "d = 2" | "d = 3" | "d = 4" | "d = 5" | "d = 6"
    | "d = 7" | "d = 8" | "d = 9" by atomize_elim presburger
  then show ?thesis by cases (simp_all add: digit_char_def)
qed

lemma digit_char_inj: "a < 10 \<Longrightarrow> b < 10 \<Longrightarrow> digit_char a = digit_char b \<Longrightarrow> a = b"
proof -
  assume a: "a < 10" and b: "b < 10" and e: "digit_char a = digit_char b"
  have "48 + a = (of_char (digit_char a) :: nat)" using a by (simp only: of_char_digit)
  also have "\<dots> = of_char (digit_char b)" by (simp only: e)
  also have "\<dots> = 48 + b" using b by (simp only: of_char_digit)
  finally show "a = b" by simp
qed

lemma digit_char_not_paren: "d < 10 \<Longrightarrow> digit_char d \<noteq> CHR ''(''"
  using of_char_digit[of d] by auto

lemma digit_char_not_minus: "d < 10 \<Longrightarrow> digit_char d \<noteq> CHR ''-''"
  using of_char_digit[of d] by auto

lemma decimal_digits: "c \<in> set (decimal n) \<Longrightarrow> \<exists>d<10. c = digit_char d"
proof (induction n rule: decimal.induct)
  case (1 n)
  show ?case
  proof (cases "n < 10")
    case True
    with "1.prems" show ?thesis by (auto simp: decimal.simps[of n])
  next
    case False
    with "1.prems" have "c \<in> set (decimal (n div 10)) \<or> c = digit_char (n mod 10)"
      by (auto simp: decimal.simps[of n])
    then show ?thesis
    proof
      assume "c \<in> set (decimal (n div 10))"
      with "1.IH"[OF False] show ?thesis by blast
    next
      assume "c = digit_char (n mod 10)"
      moreover have "n mod 10 < 10" by simp
      ultimately show ?thesis by blast
    qed
  qed
qed

lemma decimal_nonempty: "decimal n \<noteq> []"
  by (subst decimal.simps) simp

lemma decimal_length1: "length (decimal n) = Suc 0 \<longleftrightarrow> n < 10"
proof (cases "n < 10")
  case True
  then show ?thesis by (subst decimal.simps) simp
next
  case False
  then have "length (decimal n) = Suc (length (decimal (n div 10)))"
    by (subst decimal.simps) simp
  with False decimal_nonempty[of "n div 10"] show ?thesis by simp
qed

lemma decimal_inj: "decimal n = decimal m \<Longrightarrow> n = m"
proof (induction n arbitrary: m rule: decimal.induct)
  case (1 n)
  show ?case
  proof (cases "n < 10")
    case True
    then have "length (decimal n) = Suc 0" by (simp add: decimal_length1)
    with "1.prems" have "length (decimal m) = Suc 0" by simp
    then have m: "m < 10" by (simp add: decimal_length1)
    from True m "1.prems" have "digit_char n = digit_char m"
      by (simp add: decimal.simps[of n] decimal.simps[of m])
    with True m show ?thesis by (rule digit_char_inj)
  next
    case False
    then have "length (decimal n) \<noteq> Suc 0" by (simp add: decimal_length1)
    with "1.prems" have "length (decimal m) \<noteq> Suc 0" by simp
    then have m: "\<not> m < 10" by (simp add: decimal_length1)
    from False m "1.prems" have
      "decimal (n div 10) @ [digit_char (n mod 10)] = decimal (m div 10) @ [digit_char (m mod 10)]"
      by (simp add: decimal.simps[of n] decimal.simps[of m])
    then have a: "decimal (n div 10) = decimal (m div 10)"
      and b: "digit_char (n mod 10) = digit_char (m mod 10)" by simp_all
    from "1.IH"[OF False a] have "n div 10 = m div 10" .
    moreover from b have "n mod 10 = m mod 10" by (intro digit_char_inj) simp_all
    ultimately show ?thesis by (metis div_mult_mod_eq)
  qed
qed

lemma decimal_no_paren: "CHR ''('' \<notin> set (decimal n)"
proof
  assume "CHR ''('' \<in> set (decimal n)"
  then obtain d where "d < 10" "CHR ''('' = digit_char d"
    using decimal_digits by blast
  with digit_char_not_paren[of d] show False by simp
qed

lemma show_int_no_paren: "CHR ''('' \<notin> set (show_int i)"
  by (simp add: show_int_def decimal_no_paren)

lemma show_int_inj: "show_int p = show_int q \<Longrightarrow> p = q"
proof -
  assume eq: "show_int p = show_int q"
  have hd_dec: "\<And>n. hd (decimal n) \<noteq> CHR ''-''"
    using decimal_digits decimal_nonempty digit_char_not_minus
    by (metis hd_in_set)
  have "sint p = sint q"
  proof (cases "sint p < 0")
    case True
    show ?thesis
    proof (cases "sint q < 0")
      case True
      with \<open>sint p < 0\<close> eq have "decimal (nat (- sint p)) = decimal (nat (- sint q))"
        by (simp add: show_int_def)
      then have "nat (- sint p) = nat (- sint q)" by (rule decimal_inj)
      with True \<open>sint p < 0\<close> show ?thesis by simp
    next
      case False
      with \<open>sint p < 0\<close> eq have "CHR ''-'' # decimal (nat (- sint p)) = decimal (nat (sint q))"
        by (simp add: show_int_def)
      then have "hd (decimal (nat (sint q))) = CHR ''-''" by (metis list.sel(1))
      with hd_dec show ?thesis by blast
    qed
  next
    case False
    show ?thesis
    proof (cases "sint q < 0")
      case True
      with False eq have "decimal (nat (sint p)) = CHR ''-'' # decimal (nat (- sint q))"
        by (simp add: show_int_def)
      then have "hd (decimal (nat (sint p))) = CHR ''-''" by (metis list.sel(1))
      with hd_dec show ?thesis by blast
    next
      case q: False
      with False eq have "decimal (nat (sint p)) = decimal (nat (sint q))"
        by (simp add: show_int_def)
      then have "nat (sint p) = nat (sint q)" by (rule decimal_inj)
      with False q show ?thesis by simp
    qed
  qed
  then show "p = q" by (rule signed_word_eqI)
qed

lemma suffix_number_inj:
  assumes "b1 @ '' ('' @ show_int p @ '')'' = b2 @ '' ('' @ show_int q @ '')''"
  shows "p = q"
proof -
  let ?P = "\<lambda>c. c \<noteq> CHR ''(''"
  have e: "rev (show_int p) @ CHR ''('' # (CHR '' '' # rev b1)
         = rev (show_int q) @ CHR ''('' # (CHR '' '' # rev b2)"
    using arg_cong[OF assms, of rev] by simp
  have "takeWhile ?P (rev (show_int p) @ CHR ''('' # (CHR '' '' # rev b1)) = rev (show_int p)"
    using show_int_no_paren[of p] by (auto simp: takeWhile_tail takeWhile_eq_all_conv)
  moreover
  have "takeWhile ?P (rev (show_int q) @ CHR ''('' # (CHR '' '' # rev b2)) = rev (show_int q)"
    using show_int_no_paren[of q] by (auto simp: takeWhile_tail takeWhile_eq_all_conv)
  ultimately have "rev (show_int p) = rev (show_int q)" using e by simp
  then have "show_int p = show_int q" by simp
  then show ?thesis by (rule show_int_inj)
qed

lemma named_index:
  assumes "0 \<le>s (p::int32)" "p <s word_of_nat n"
  shows "nat (sint p) < n"
proof -
  let ?w = "word_of_nat n :: int32"
  from assms have pos: "0 \<le> sint p" "sint p < sint ?w"
    by (simp_all add: word_sle_eq word_sless_alt)
  then have "0 < sint ?w" by simp
  have "- (2 ^ 31) \<le> uint ?w"
    by (rule order_trans[of _ 0]) simp_all
  then have "sint ?w \<le> uint ?w"
    by (simp add: sint_uint signed_take_bit_int_less_eq_self_iff)
  also have "uint ?w \<le> int n"
    by (simp add: unsigned_of_nat take_bit_nat_less_eq_self)
  finally show ?thesis using pos by simp
qed

subsection \<open>FxParams: parameter names\<close>

lemma getParamName_form:
  assumes "0 \<le>s p"
  shows "\<exists>base. getParamName src s p = Some (base @ '' ('' @ show_int p @ '')'')"
proof (cases "p <s word_of_nat (length (namedConfigParams src))")
  case True
  with assms have idx: "nat (sint p) < length (namedConfigParams src)" by (rule named_index)
  have "getParamName src s p =
      Some (displayName (namedConfigParams src ! nat (sint p)) @ '' ('' @ show_int p @ '')'')"
    unfolding getParamName_def Let_def
    using True assms idx by (simp only: if_True simp_thms)
  then show ?thesis by (rule exI)
next
  case False
  have "getParamName src s p =
      Some (GetParamName (api src) s (fx src)
              (p - word_of_nat (length (namedConfigParams src))) @ '' ('' @ show_int p @ '')'')"
    unfolding getParamName_def Let_def
    using False by (simp only: if_False)
  then show ?thesis by (rule exI)
qed

text \<open>
  C10. For an FX parameter source and an index \<open>p\<close> in its range, the name
  \<^verbatim>\<open>getParamName(p)\<close> ends with a space and \<open>p\<close> in decimal between
  parentheses; so the names of two distinct indices in the range differ, whatever
  the names the host reports.
\<close>

theorem getParamName_suffix:
  assumes "0 \<le>s p" "p <s getParamCount src s"
  shows "(\<exists>base. getParamName src s p = Some (base @ '' ('' @ show_int p @ '')''))
     \<and> (\<forall>q. 0 \<le>s q \<and> q <s getParamCount src s \<and> q \<noteq> p
            \<longrightarrow> getParamName src s q \<noteq> getParamName src s p)"
proof (intro conjI allI impI)
  from assms(1) show "\<exists>base. getParamName src s p = Some (base @ '' ('' @ show_int p @ '')'')"
    by (rule getParamName_form)
next
  fix q
  assume q: "0 \<le>s q \<and> q <s getParamCount src s \<and> q \<noteq> p"
  from q have q0: "0 \<le>s q" by (rule conjunct1)
  from q have qp: "q \<noteq> p" by (rule conjunct2[THEN conjunct2])
  from getParamName_form[OF assms(1), of src s] obtain b1 where
    b1: "getParamName src s p = Some (b1 @ '' ('' @ show_int p @ '')'')" ..
  from getParamName_form[OF q0, of src s] obtain b2 where
    b2: "getParamName src s q = Some (b2 @ '' ('' @ show_int q @ '')'')" ..
  show "getParamName src s q \<noteq> getParamName src s p"
  proof
    assume "getParamName src s q = getParamName src s p"
    then have "Some (b2 @ '' ('' @ show_int q @ '')'') = Some (b1 @ '' ('' @ show_int p @ '')'')"
      by (simp only: b1 b2)
    then have "b2 @ '' ('' @ show_int q @ '')'' = b1 @ '' ('' @ show_int p @ '')''"
      by (simp only: option.inject)
    then have "q = p" by (rule suffix_number_inj)
    with qp show False by (rule notE)
  qed
qed

lemma show_int_1: "show_int 1 = ''1''"
  by (simp add: show_int_def decimal.simps digit_char_def)

lemma show_int_2: "show_int 2 = ''2''"
  by (simp add: show_int_def decimal.simps digit_char_def)

theorem getParamName_suffix_witness:
  "0 \<le>s (1::int32) \<and> 1 <s getParamCount exFxParams ()
   \<and> getParamName exFxParams () 1 = Some ''Gain (1)''
   \<and> getParamName exFxParams () 2 = Some ''Gain (2)''
   \<and> getParamName exFxParams () 2 \<noteq> getParamName exFxParams () 1"
proof -
  have h: "0 \<le>s (1::int32)" "1 <s getParamCount exFxParams ()"
    by (simp_all add: word_sle_eq word_sless_alt getParamCount_def exFxParams_def exApi_def)
  have n1: "getParamName exFxParams () 1 = Some ''Gain (1)''"
    by (simp add: getParamName_def exFxParams_def exApi_def show_int_1 word_sless_alt)
  have n2: "getParamName exFxParams () 2 = Some ''Gain (2)''"
    by (simp add: getParamName_def exFxParams_def exApi_def show_int_2 word_sless_alt)
  have q: "0 \<le>s (2::int32) \<and> 2 <s getParamCount exFxParams () \<and> (2::int32) \<noteq> 1"
    by (simp add: word_sle_eq word_sless_alt getParamCount_def exFxParams_def exApi_def)
  from getParamName_suffix[OF h] q
  have "getParamName exFxParams () 2 \<noteq> getParamName exFxParams () 1" by blast
  with h n1 n2 show ?thesis by blast
qed

subsection \<open>FxNamedConfigParam: the value read\<close>

lemma find_range:
  "FxNamedConfigParam_find t vals v = 0
   \<or> (\<exists>k. v \<le> k \<and> k < v + length vals \<and> FxNamedConfigParam_find t vals v = real k)"
proof (induction vals arbitrary: v)
  case Nil
  then show ?case by simp
next
  case (Cons e es)
  show ?case
  proof (cases "t = snd e")
    case True
    then show ?thesis by auto
  next
    case False
    from Cons.IH[of "Suc v"] False show ?thesis by auto
  qed
qed

lemma find_unknown: "t \<notin> snd ` set vals \<Longrightarrow> FxNamedConfigParam_find t vals v = 0"
  by (induction vals arbitrary: v) auto

lemma find_known:
  "k < length vals \<Longrightarrow> snd (vals ! k) = t \<Longrightarrow> \<forall>j<k. snd (vals ! j) \<noteq> t
     \<Longrightarrow> FxNamedConfigParam_find t vals v = real (v + k)"
proof (induction vals arbitrary: v k)
  case Nil
  then show ?case by simp
next
  case (Cons e es)
  show ?case
  proof (cases k)
    case 0
    with Cons.prems show ?thesis by simp
  next
    case (Suc k')
    with Cons.prems have "snd e \<noteq> t" by auto
    moreover from Suc Cons.prems have "FxNamedConfigParam_find t es (Suc v) = real (Suc v + k')"
      by (intro Cons.IH) auto
    ultimately show ?thesis using Suc by auto
  qed
qed

text \<open>
  C7. For an enumerated named config parameter over a table of \<open>N \<ge> 1\<close> entries,
  \<^verbatim>\<open>getValue()\<close> is one of the ordinals \<open>0, \<dots>, N - 1\<close> whatever token the
  host reports, and it is 0 when the token is empty or is in no entry of the table.
\<close>

theorem FxNamedConfigParam_getValue_range:
  assumes "vals \<noteq> []"
    and "p = fst (FxNamedConfigParam x source source_fx own_fx dispName nm vals s0)"
    and "token = snd (GetNamedConfigParm source s source_fx nm)"
  shows "(\<exists>k<length vals. getValue p s = real k)
     \<and> (token = [] \<or> token \<notin> snd ` set vals \<longrightarrow> getValue p s = 0)"
proof -
  have g: "getValue p s = FxNamedConfigParam_getValue source source_fx nm vals s"
    by (simp add: assms(2) FxNamedConfigParam_def Let_def)
  from assms(1) have pos: "0 < length vals" by simp
  have "\<exists>k<length vals. getValue p s = real k"
  proof (cases "token = []")
    case True
    with pos show ?thesis
      by (auto simp: g FxNamedConfigParam_getValue_def assms(3) Let_def)
  next
    case False
    then have "getValue p s = FxNamedConfigParam_find token vals 0"
      by (simp add: g FxNamedConfigParam_getValue_def assms(3) Let_def)
    with find_range[of token vals 0] pos show ?thesis by auto
  qed
  moreover have "token = [] \<or> token \<notin> snd ` set vals \<longrightarrow> getValue p s = 0"
    using find_unknown[of token vals 0]
    by (auto simp: g FxNamedConfigParam_getValue_def assms(3) Let_def)
  ultimately show ?thesis by blast
qed

theorem FxNamedConfigParam_getValue_range_witness:
  "REAEQ_BAND_TYPE_VALUES \<noteq> [] \<and> length REAEQ_BAND_TYPE_VALUES = 11
   \<and> ''12'' \<notin> snd ` set REAEQ_BAND_TYPE_VALUES
   \<and> getValue (fst (FxNamedConfigParam exExternals (exApi 0 1 (None, None) ''12'') 0 0
        ''Band 1 type'' ''BANDTYPE0'' REAEQ_BAND_TYPE_VALUES ())) () = 0
   \<and> getValue (fst (FxNamedConfigParam exExternals (exApi 0 1 (None, None) ''8'') 0 0
        ''Band 1 type'' ''BANDTYPE0'' REAEQ_BAND_TYPE_VALUES ())) () = 2"
proof -
  have ne: "REAEQ_BAND_TYPE_VALUES \<noteq> []" by (simp add: REAEQ_BAND_TYPE_VALUES_def)
  have un: "''12'' \<notin> snd ` set REAEQ_BAND_TYPE_VALUES"
    by (simp add: REAEQ_BAND_TYPE_VALUES_def)
  have tk: "''12'' = snd (GetNamedConfigParm (exApi 0 1 (None, None) ''12'') () 0 ''BANDTYPE0'')"
    by (simp add: exApi_def)
  from FxNamedConfigParam_getValue_range[OF ne refl tk,
      of exExternals 0 "''Band 1 type''" "()"] un
  have "getValue (fst (FxNamedConfigParam exExternals (exApi 0 1 (None, None) ''12'') 0 0
        ''Band 1 type'' ''BANDTYPE0'' REAEQ_BAND_TYPE_VALUES ())) () = 0"
    by blast
  moreover have "getValue (fst (FxNamedConfigParam exExternals (exApi 0 1 (None, None) ''8'') 0 0
        ''Band 1 type'' ''BANDTYPE0'' REAEQ_BAND_TYPE_VALUES ())) () = 2"
    by (simp add: FxNamedConfigParam_def FxNamedConfigParam_getValue_def exApi_def
        REAEQ_BAND_TYPE_VALUES_def Let_def)
  moreover have "length REAEQ_BAND_TYPE_VALUES = 11" by (simp add: REAEQ_BAND_TYPE_VALUES_def)
  ultimately show ?thesis using ne un by blast
qed

subsection \<open>ReaperObjVolParam: the mute value\<close>

text \<open>
  C8. For a volume parameter over a host field that reads back what was written,
  with the polarity flag set or not (any raw value at construction): editing a text
  that begins with -inf writes the mute value 0, and \<^verbatim>\<open>getValue()\<close> then
  returns 0; in general \<^verbatim>\<open>getValue()\<close> after \<^verbatim>\<open>setValue(v)\<close> returns
  \<open>v\<close>, the sign inversion of the write being undone by the read.
\<close>

theorem vol_minus_inf_reads_zero:
  assumes "\<And>v s. getSetValue_get provider (getSetValue_set provider v s) = v"
    and "take 4 text = ''-inf''"
    and "p = ReaperObjVolParam x provider s0"
  shows "getSetValue_get provider (setValueFromEdited p text s) = 0
     \<and> getValue p (setValueFromEdited p text s) = 0
     \<and> getValue p (setValue p v s) = v"
proof -
  define f where "f = ReaperObjVolParam_flipSign provider s0"
  have sv: "setValue p = ReaperObjVolParam_setValue provider f"
    and gv: "getValue p = ReaperObjVolParam_getValue provider f"
    and se: "setValueFromEdited p = ReaperObjVolParam_setValueFromEdited x provider f"
    by (simp_all add: assms(3) ReaperObjVolParam_def Let_def f_def)
  have w: "setValueFromEdited p text s = ReaperObjVolParam_setValue provider f 0 s"
    by (simp add: se ReaperObjVolParam_setValueFromEdited_def assms(2))
  have r: "\<And>u. getSetValue_get provider (ReaperObjVolParam_setValue provider f u s)
             = (if f then - u else u)"
    by (simp add: ReaperObjVolParam_setValue_def assms(1))
  show ?thesis
    by (simp add: w gv sv r ReaperObjVolParam_getValue_def Let_def)
qed

theorem vol_minus_inf_reads_zero_witness:
  "take 4 ''-inf dB'' = ''-inf''
   \<and> ReaperObjVolParam_flipSign cellProvider (- 1)
   \<and> \<not> ReaperObjVolParam_flipSign cellProvider 1
   \<and> getValue (ReaperObjVolParam exExternals cellProvider (- 1))
        (setValueFromEdited (ReaperObjVolParam exExternals cellProvider (- 1)) ''-inf dB'' (- 1)) = 0
   \<and> getValue (ReaperObjVolParam exExternals cellProvider 1)
        (setValueFromEdited (ReaperObjVolParam exExternals cellProvider 1) ''-inf dB'' 1) = 0
   \<and> getValue (ReaperObjVolParam exExternals cellProvider (- 1))
        (setValue (ReaperObjVolParam exExternals cellProvider (- 1)) 2 (- 1)) = 2"
proof -
  have c: "\<And>v s. getSetValue_get cellProvider (getSetValue_set cellProvider v s) = v"
    by (simp add: cellProvider_def)
  have t: "take 4 ''-inf dB'' = ''-inf''" by simp
  have f: "ReaperObjVolParam_flipSign cellProvider (- 1)"
    "\<not> ReaperObjVolParam_flipSign cellProvider 1"
    by (simp_all add: ReaperObjVolParam_flipSign_def ReaperObjVolParam_getValue_def
        cellProvider_def)
  note a = vol_minus_inf_reads_zero[OF c t refl, of exExternals "- 1" "- 1" 2]
  note b = vol_minus_inf_reads_zero[OF c t refl, of exExternals 1 1 2]
  from a have a1: "getValue (ReaperObjVolParam exExternals cellProvider (- 1))
        (setValueFromEdited (ReaperObjVolParam exExternals cellProvider (- 1)) ''-inf dB'' (- 1)) = 0"
    by (rule conjunct2[THEN conjunct1])
  from a have a2: "getValue (ReaperObjVolParam exExternals cellProvider (- 1))
        (setValue (ReaperObjVolParam exExternals cellProvider (- 1)) 2 (- 1)) = 2"
    by (rule conjunct2[THEN conjunct2])
  from b have b1: "getValue (ReaperObjVolParam exExternals cellProvider 1)
        (setValueFromEdited (ReaperObjVolParam exExternals cellProvider 1) ''-inf dB'' 1) = 0"
    by (rule conjunct2[THEN conjunct1])
  from t f a1 b1 a2 show ?thesis by (intro conjI)
qed

subsection \<open>FxParam: step sizes and invariants\<close>

lemma double_to_int_trunc:
  assumes "- (2 ^ 31) - 1 < q" "q < 2 ^ 31"
  shows "\<exists>k. double_to_int q = Some k
           \<and> (0 \<le> q \<longrightarrow> real_of_int k \<le> q \<and> q < real_of_int k + 1)
           \<and> (q < 0 \<longrightarrow> real_of_int k - 1 < q \<and> q \<le> real_of_int k)"
proof (cases "0 \<le> q")
  case True
  then have "0 \<le> \<lfloor>q\<rfloor>" by simp
  moreover from assms(2) have "\<lfloor>q\<rfloor> < 2 ^ 31" by (simp add: floor_less_iff)
  ultimately have "double_to_int q = Some \<lfloor>q\<rfloor>"
    using True by (simp add: double_to_int_def)
  moreover have "real_of_int \<lfloor>q\<rfloor> \<le> q" "q < real_of_int \<lfloor>q\<rfloor> + 1" by linarith+
  ultimately show ?thesis using True by auto
next
  case False
  define t where "t = \<lceil>q\<rceil>"
  from False have "t \<le> 0" by (simp add: t_def ceiling_le_iff)
  then have u: "t < 2 ^ 31" by simp
  from assms(1) have l: "- (2 ^ 31) \<le> t" by (simp add: t_def le_ceiling_iff)
  have "double_to_int q = (if - (2 ^ 31) \<le> t \<and> t < 2 ^ 31 then Some t else None)"
    using False by (simp add: double_to_int_def t_def)
  with u l have "double_to_int q = Some t" by simp
  moreover have "real_of_int t - 1 < q" "q \<le> real_of_int t" unfolding t_def by linarith+
  ultimately show ?thesis using False by auto
qed

lemma FxParam_steps_none:
  "hs = None \<or> hs = Some 0 \<Longrightarrow>
     FxParam_steps x mn mx (hs, hl) = Some ((mx - mn) / 1000, 20 * ((mx - mn) / 1000))"
  by (auto simp: FxParam_steps_def)

lemma FxParam_steps_large:
  assumes "st \<noteq> 0" "hl = None \<or> hl = Some 0"
    and "double_to_int (ddiv x (ddiv x (dsub x mx mn) 50) st) = Some k"
  shows "FxParam_steps x mn mx (Some st, hl)
     = Some (st, if dmul x st (real_of_int k) = 0 then st else dmul x st (real_of_int k))"
proof -
  have l0: "(case hl of None \<Rightarrow> 0 | Some v \<Rightarrow> v) = (0::real)"
    using assms(2) by auto
  show ?thesis
    using assms(1,3) by (simp add: FxParam_steps_def l0 Let_def)
qed

lemma FxParam_fields:
  assumes "GetParam source s f prm = (v, mn, mx)"
    and "FxParam_steps x mn mx (GetParameterStepSizes source s f prm) = Some (st, lg)"
  shows "\<exists>p s'. FxParam x source f prm s = Some (p, s') \<and> minP p = mn \<and> maxP p = mx
           \<and> step p = st \<and> largeStep p = lg"
  using assms by (simp add: FxParam_def Let_def Param_base_def)

text \<open>
  C5, as stated, fails: when the host reports min = 100 and max = 0 with the step
  3/4, the large step is -3/2, which is above (max - min) / 50 = -2: the conversion
  to int truncates towards zero, which rounds a negative quotient up.
\<close>

theorem FxParam_largeStep_rounded_up:
  "FxParam exExternals (exApi 100 0 (Some (3 / 4), None) []) 0 0 () \<noteq> None
   \<and> largeStep (fst (the (FxParam exExternals (exApi 100 0 (Some (3 / 4), None) []) 0 0 ())))
       = - (3 / 2)
   \<and> (0 - 100) / 50 < (- (3 / 2) :: real)"
proof -
  have "double_to_int (- double_8_3) = Some (- 2)"
    by (simp add: double_to_int_def double_8_3_def)
  then have "FxParam_steps exExternals 100 0 (Some (3 / 4), None) = Some (3 / 4, - (3 / 2))"
    by (simp add: FxParam_steps_def exExternals_def)
  then show ?thesis
    by (simp add: FxParam_def exApi_def Let_def Param_base_def)
qed

text \<open>
  C5, amended. An FX parameter takes the range the host reports. When the host
  reports no step (it writes none, or 0), the step is (max - min) / 1000 and the
  large step 20 steps. When it reports a step and no large step, and the double
  quotient ((max - min) / 50) / step, truncated, is within the range of an int, the
  large step is the step times an integer \<open>k\<close>, as doubles: \<open>k\<close> is that quotient
  truncated towards zero, so rounded down when the quotient is not negative and
  rounded up when it is negative; and the large step is the step itself when that
  product is 0.
\<close>

theorem FxParam_synthesized_steps:
  assumes "GetParam source s f prm = (v, mn, mx)"
    and "GetParameterStepSizes source s f prm = (hs, hl)"
  shows "(hs = None \<or> hs = Some 0 \<longrightarrow>
            (\<exists>p s'. FxParam x source f prm s = Some (p, s') \<and> minP p = mn \<and> maxP p = mx
               \<and> step p = (mx - mn) / 1000 \<and> largeStep p = 20 * step p))
     \<and> (\<forall>st q. hs = Some st \<and> st \<noteq> 0 \<and> (hl = None \<or> hl = Some 0)
               \<and> q = ddiv x (ddiv x (dsub x mx mn) 50) st
               \<and> - (2 ^ 31) - 1 < q \<and> q < 2 ^ 31 \<longrightarrow>
            (\<exists>p s' k. FxParam x source f prm s = Some (p, s') \<and> minP p = mn \<and> maxP p = mx
               \<and> step p = st
               \<and> (0 \<le> q \<longrightarrow> real_of_int k \<le> q \<and> q < real_of_int k + 1)
               \<and> (q < 0 \<longrightarrow> real_of_int k - 1 < q \<and> q \<le> real_of_int k)
               \<and> largeStep p = (if dmul x st (real_of_int k) = 0 then st
                                else dmul x st (real_of_int k))))"
proof (intro conjI allI impI)
  assume "hs = None \<or> hs = Some 0"
  then have "FxParam_steps x mn mx (GetParameterStepSizes source s f prm)
      = Some ((mx - mn) / 1000, 20 * ((mx - mn) / 1000))"
    unfolding assms(2) by (rule FxParam_steps_none)
  from FxParam_fields[OF assms(1) this]
  show "\<exists>p s'. FxParam x source f prm s = Some (p, s') \<and> minP p = mn \<and> maxP p = mx
               \<and> step p = (mx - mn) / 1000 \<and> largeStep p = 20 * step p"
    by auto
next
  fix st q
  assume a: "hs = Some st \<and> st \<noteq> 0 \<and> (hl = None \<or> hl = Some 0)
               \<and> q = ddiv x (ddiv x (dsub x mx mn) 50) st
               \<and> - (2 ^ 31) - 1 < q \<and> q < 2 ^ 31"
  then have hs: "hs = Some st" and st: "st \<noteq> 0" and hl: "hl = None \<or> hl = Some 0"
    and q: "q = ddiv x (ddiv x (dsub x mx mn) 50) st"
    and lo: "- (2 ^ 31) - 1 < q" and hi: "q < 2 ^ 31"
    by blast+
  from double_to_int_trunc[OF lo hi] obtain k where
    k: "double_to_int q = Some k"
    and k1: "0 \<le> q \<longrightarrow> real_of_int k \<le> q \<and> q < real_of_int k + 1"
    and k2: "q < 0 \<longrightarrow> real_of_int k - 1 < q \<and> q \<le> real_of_int k"
    by blast
  from k have "double_to_int (ddiv x (ddiv x (dsub x mx mn) 50) st) = Some k"
    by (simp only: q)
  from FxParam_steps_large[OF st hl this]
  have "FxParam_steps x mn mx (GetParameterStepSizes source s f prm)
      = Some (st, if dmul x st (real_of_int k) = 0 then st else dmul x st (real_of_int k))"
    by (simp only: assms(2) hs)
  from FxParam_fields[OF assms(1) this] obtain p s' where
    p: "FxParam x source f prm s = Some (p, s')" "minP p = mn" "maxP p = mx"
       "step p = st"
       "largeStep p = (if dmul x st (real_of_int k) = 0 then st else dmul x st (real_of_int k))"
    by blast
  from p k1 k2
  show "\<exists>p s' k. FxParam x source f prm s = Some (p, s') \<and> minP p = mn \<and> maxP p = mx
               \<and> step p = st
               \<and> (0 \<le> q \<longrightarrow> real_of_int k \<le> q \<and> q < real_of_int k + 1)
               \<and> (q < 0 \<longrightarrow> real_of_int k - 1 < q \<and> q \<le> real_of_int k)
               \<and> largeStep p = (if dmul x st (real_of_int k) = 0 then st
                                else dmul x st (real_of_int k))"
    by blast
qed

lemma exApi_sel:
  "GetParam (exApi mn mx sizes token) s f prm = (mn, mn, mx)"
  "GetParameterStepSizes (exApi mn mx sizes token) s f prm = sizes"
  by (simp_all add: exApi_def)

lemma exExternals_ops:
  "dsub exExternals a b = a - b" "dmul exExternals a b = a * b"
  "ddiv exExternals 1 50 = double_0_02" "ddiv exExternals double_0_02 double_0_01 = 2"
  "ddiv exExternals (- 100) 50 = - 2" "ddiv exExternals (- 2) (3 / 4) = - double_8_3"
  by (simp_all add: exExternals_def double_0_02_def double_0_01_def)

lemma int_between: "real_of_int k \<le> 2 \<Longrightarrow> 2 < real_of_int k + 1 \<Longrightarrow> k = 2"
  by linarith

lemma int_between_neg:
  "real_of_int k - 1 < - double_8_3 \<Longrightarrow> - double_8_3 \<le> real_of_int k \<Longrightarrow> k = - 2"
proof -
  assume a: "real_of_int k - 1 < - double_8_3" and b: "- double_8_3 \<le> real_of_int k"
  have "- 3 < - double_8_3" "- double_8_3 < - 2" by (simp_all add: double_8_3_def)
  with a b have "real_of_int k < - 1" "- 3 < real_of_int k" by linarith+
  then show ?thesis by linarith
qed

theorem FxParam_synthesized_steps_witness:
  "(\<exists>p s'. FxParam exExternals (exApi 0 100 (None, None) []) 0 0 () = Some (p, s')
       \<and> step p = 1 / 10 \<and> largeStep p = 2)
   \<and> double_0_01 \<noteq> 0
   \<and> ddiv exExternals (ddiv exExternals (dsub exExternals 1 0) 50) double_0_01 = 2
   \<and> (\<exists>p s'. FxParam exExternals (exApi 0 1 (Some double_0_01, None) []) 0 0 () = Some (p, s')
       \<and> step p = double_0_01 \<and> largeStep p = 2 * double_0_01)
   \<and> ddiv exExternals (ddiv exExternals (dsub exExternals 0 100) 50) (3 / 4) = - double_8_3
   \<and> - double_8_3 < 0
   \<and> (\<exists>p s'. FxParam exExternals (exApi 100 0 (Some (3 / 4), None) []) 0 0 () = Some (p, s')
       \<and> step p = 3 / 4 \<and> largeStep p = (3 / 4) * (- 2))"
proof -
  note t1 = FxParam_synthesized_steps[where source = "exApi 0 100 (None, None) []"
      and s = "()" and f = 0 and prm = 0 and v = 0 and mn = 0 and mx = 100
      and hs = None and hl = None and x = exExternals,
      OF exApi_sel(1) exApi_sel(2), THEN conjunct1, rule_format]
  have "None = None \<or> None = Some (0::real)" by simp
  from t1[OF this] obtain p s' where
    p: "FxParam exExternals (exApi 0 100 (None, None) []) 0 0 () = Some (p, s')"
    and p2: "step p = (100 - 0) / 1000" and p3: "largeStep p = 20 * step p"
    by (elim exE conjE)
  from p2 have s1: "step p = 1 / 10" by simp
  with p3 have l1: "largeStep p = 2" by simp
  have a: "\<exists>p s'. FxParam exExternals (exApi 0 100 (None, None) []) 0 0 () = Some (p, s')
       \<and> step p = 1 / 10 \<and> largeStep p = 2"
    by (intro exI conjI) (rule p, rule s1, rule l1)
  have ne: "double_0_01 \<noteq> 0" by (simp add: double_0_01_def)
  have q2: "ddiv exExternals (ddiv exExternals (dsub exExternals 1 0) 50) double_0_01 = 2"
    by (simp add: exExternals_ops)
  note t2 = FxParam_synthesized_steps[where source = "exApi 0 1 (Some double_0_01, None) []"
      and s = "()" and f = 0 and prm = 0 and v = 0 and mn = 0 and mx = 1
      and hs = "Some double_0_01" and hl = None and x = exExternals,
      OF exApi_sel(1) exApi_sel(2), THEN conjunct2, rule_format, of double_0_01 2]
  have "Some double_0_01 = Some double_0_01 \<and> double_0_01 \<noteq> 0
      \<and> (None = None \<or> None = Some (0::real))
      \<and> 2 = ddiv exExternals (ddiv exExternals (dsub exExternals 1 0) 50) double_0_01
      \<and> - (2 ^ 31) - 1 < (2::real) \<and> (2::real) < 2 ^ 31"
    using ne q2 by simp
  from t2[OF this] obtain pa sa k where
    r: "FxParam exExternals (exApi 0 1 (Some double_0_01, None) []) 0 0 () = Some (pa, sa)"
    and r2: "step pa = double_0_01"
    and rk: "(0::real) \<le> 2 \<longrightarrow> real_of_int k \<le> 2 \<and> 2 < real_of_int k + 1"
    and r3: "largeStep pa = (if dmul exExternals double_0_01 (real_of_int k) = 0 then double_0_01
                            else dmul exExternals double_0_01 (real_of_int k))"
    by (elim exE conjE)
  from rk have "k = 2" by (simp add: int_between)
  with r3 ne have l2: "largeStep pa = 2 * double_0_01"
    by (simp add: exExternals_ops)
  have b: "\<exists>p s'. FxParam exExternals (exApi 0 1 (Some double_0_01, None) []) 0 0 () = Some (p, s')
       \<and> step p = double_0_01 \<and> largeStep p = 2 * double_0_01"
    by (intro exI conjI) (rule r, rule r2, rule l2)
  have q3: "ddiv exExternals (ddiv exExternals (dsub exExternals 0 100) 50) (3 / 4) = - double_8_3"
    by (simp add: exExternals_ops)
  have ng: "- double_8_3 < 0" by (simp add: double_8_3_def)
  note t3 = FxParam_synthesized_steps[where source = "exApi 100 0 (Some (3 / 4), None) []"
      and s = "()" and f = 0 and prm = 0 and v = 100 and mn = 100 and mx = 0
      and hs = "Some (3 / 4)" and hl = None and x = exExternals,
      OF exApi_sel(1) exApi_sel(2), THEN conjunct2, rule_format, of "3 / 4" "- double_8_3"]
  have "Some (3 / 4) = Some (3 / 4) \<and> (3 / 4 :: real) \<noteq> 0
      \<and> (None = None \<or> None = Some (0::real))
      \<and> - double_8_3 = ddiv exExternals (ddiv exExternals (dsub exExternals 0 100) 50) (3 / 4)
      \<and> - (2 ^ 31) - 1 < - double_8_3 \<and> - double_8_3 < 2 ^ 31"
    using q3 by (simp add: double_8_3_def)
  from t3[OF this] obtain pb sb j where
    u: "FxParam exExternals (exApi 100 0 (Some (3 / 4), None) []) 0 0 () = Some (pb, sb)"
    and u2: "step pb = 3 / 4"
    and uk: "- double_8_3 < 0 \<longrightarrow> real_of_int j - 1 < - double_8_3 \<and> - double_8_3 \<le> real_of_int j"
    and u3: "largeStep pb = (if dmul exExternals (3 / 4) (real_of_int j) = 0 then 3 / 4
                             else dmul exExternals (3 / 4) (real_of_int j))"
    by (elim exE conjE)
  from uk ng have "j = - 2" by (simp add: int_between_neg)
  with u3 have l3: "largeStep pb = (3 / 4) * (- 2)"
    by (simp add: exExternals_ops)
  have c: "\<exists>p s'. FxParam exExternals (exApi 100 0 (Some (3 / 4), None) []) 0 0 () = Some (p, s')
       \<and> step p = 3 / 4 \<and> largeStep p = (3 / 4) * (- 2)"
    by (intro exI conjI) (rule u, rule u2, rule l3)
  from a ne q2 b q3 ng c show ?thesis by (intro conjI)
qed

text \<open>
  C6, as stated, fails for an FX parameter: when the host reports min = max and no
  step, the constructor stores the step 0.
\<close>

theorem FxParam_zero_step:
  "FxParam exExternals (exApi 1 1 (None, None) []) 0 0 () \<noteq> None
   \<and> \<not> 0 < step (fst (the (FxParam exExternals (exApi 1 1 (None, None) []) 0 0 ())))"
  by (simp add: FxParam_def exApi_def FxParam_steps_def Let_def Param_base_def)

text \<open>
  C6, amended. After construction min \<open>\<le>\<close> max and step > 0 hold for every toggle,
  volume, pan and length parameter, for every enumerated parameter over a table
  with at least one entry, and for every FX parameter for which the host reports
  min < max and no negative step.
\<close>

theorem Param_invariants:
  "(minP (ReaperObjToggleParam x tp) \<le> maxP (ReaperObjToggleParam x tp)
      \<and> 0 < step (ReaperObjToggleParam x tp))
   \<and> (minP (ReaperObjVolParam x vp s0) \<le> maxP (ReaperObjVolParam x vp s0)
      \<and> 0 < step (ReaperObjVolParam x vp s0))
   \<and> (minP (ReaperObjPanParam x pp) \<le> maxP (ReaperObjPanParam x pp)
      \<and> 0 < step (ReaperObjPanParam x pp))
   \<and> (minP (ReaperObjLenParam x lp) \<le> maxP (ReaperObjLenParam x lp)
      \<and> 0 < step (ReaperObjLenParam x lp))
   \<and> (vals \<noteq> [] \<longrightarrow>
        minP (fst (FxNamedConfigParam x src sf own dn nm vals s1))
          \<le> maxP (fst (FxNamedConfigParam x src sf own dn nm vals s1))
        \<and> 0 < step (fst (FxNamedConfigParam x src sf own dn nm vals s1)))
   \<and> (\<forall>p s'. FxParam x source f prm s = Some (p, s')
         \<and> fst (snd (GetParam source s f prm)) < snd (snd (GetParam source s f prm))
         \<and> (\<forall>st. fst (GetParameterStepSizes source s f prm) = Some st \<longrightarrow> 0 \<le> st)
        \<longrightarrow> minP p \<le> maxP p \<and> 0 < step p)"
proof (intro conjI allI impI)
  fix p s'
  assume a: "FxParam x source f prm s = Some (p, s')
         \<and> fst (snd (GetParam source s f prm)) < snd (snd (GetParam source s f prm))
         \<and> (\<forall>st. fst (GetParameterStepSizes source s f prm) = Some st \<longrightarrow> 0 \<le> st)"
  obtain v mn mx where g: "GetParam source s f prm = (v, mn, mx)"
    by (cases "GetParam source s f prm") auto
  obtain hs hl where z: "GetParameterStepSizes source s f prm = (hs, hl)"
    by (cases "GetParameterStepSizes source s f prm") auto
  from a g have lt: "mn < mx" by simp
  from a z have nn: "\<forall>st. hs = Some st \<longrightarrow> 0 \<le> st" by simp
  from a obtain st lg where
    st: "FxParam_steps x mn mx (hs, hl) = Some (st, lg)"
    and p: "minP p = mn" "maxP p = mx" "step p = st"
    by (auto simp: FxParam_def g z Let_def Param_base_def split: option.splits)
  have "0 < st"
  proof (cases "hs = None \<or> hs = Some 0")
    case True
    from FxParam_steps_none[OF this, of x mn mx hl] st lt show ?thesis by simp
  next
    case False
    then obtain h where h: "hs = Some h" "h \<noteq> 0" by (cases hs) auto
    with nn have "0 < h" by (simp add: less_le)
    moreover from st h have "st = h"
      by (auto simp: FxParam_steps_def Let_def split: if_splits option.splits)
    ultimately show ?thesis by simp
  qed
  with p lt show "minP p \<le> maxP p" "0 < step p" by simp_all
qed (simp_all add: ReaperObjToggleParam_def ReaperObjVolParam_def ReaperObjPanParam_def
      ReaperObjLenParam_def FxNamedConfigParam_def Param_base_def Let_def Suc_le_eq)

theorem Param_invariants_witness:
  "REAEQ_BAND_TYPE_VALUES \<noteq> []
   \<and> minP (fst (FxNamedConfigParam exExternals (exApi 0 1 (None, None) []) 0 0
        ''Band 1 type'' ''BANDTYPE0'' REAEQ_BAND_TYPE_VALUES ()))
     \<le> maxP (fst (FxNamedConfigParam exExternals (exApi 0 1 (None, None) []) 0 0
        ''Band 1 type'' ''BANDTYPE0'' REAEQ_BAND_TYPE_VALUES ()))
   \<and> FxParam exExternals (exApi 0 1 (None, None) []) 0 0 () \<noteq> None
   \<and> 0 < step (fst (the (FxParam exExternals (exApi 0 1 (None, None) []) 0 0 ())))"
proof -
  have ne: "REAEQ_BAND_TYPE_VALUES \<noteq> []" by (simp add: REAEQ_BAND_TYPE_VALUES_def)
  have "FxParam_steps exExternals 0 1 (None, None) = Some (1 / 1000, 1 / 1000 * 20)"
    by (simp add: FxParam_steps_def)
  then have sm: "FxParam exExternals (exApi 0 1 (None, None) []) 0 0 () \<noteq> None"
    by (simp add: FxParam_def exApi_sel Let_def)
  then obtain r where r: "FxParam exExternals (exApi 0 1 (None, None) []) 0 0 () = Some r"
    by (cases "FxParam exExternals (exApi 0 1 (None, None) []) 0 0 ()") simp_all
  obtain p s' where ps: "r = (p, s')" by (cases r)
  have h: "fst (snd (GetParam (exApi 0 1 (None, None) []) () 0 0))
            < snd (snd (GetParam (exApi 0 1 (None, None) []) () 0 0))"
    "\<forall>st. fst (GetParameterStepSizes (exApi 0 1 (None, None) []) () 0 0) = Some st \<longrightarrow> 0 \<le> st"
    by (simp_all add: exApi_sel)
  note inv = Param_invariants[where x = exExternals and source = "exApi 0 1 (None, None) []"
      and f = 0 and prm = 0 and s = "()" and vals = REAEQ_BAND_TYPE_VALUES
      and src = "exApi 0 1 (None, None) []" and sf = 0 and own = 0
      and dn = "''Band 1 type''" and nm = "''BANDTYPE0''" and ?s1.0 = "()"]
  note inv5 = inv[THEN conjunct2, THEN conjunct2, THEN conjunct2, THEN conjunct2]
  from inv5[THEN conjunct1, rule_format, OF ne]
  have nc: "minP (fst (FxNamedConfigParam exExternals (exApi 0 1 (None, None) []) 0 0
        ''Band 1 type'' ''BANDTYPE0'' REAEQ_BAND_TYPE_VALUES ()))
     \<le> maxP (fst (FxNamedConfigParam exExternals (exApi 0 1 (None, None) []) 0 0
        ''Band 1 type'' ''BANDTYPE0'' REAEQ_BAND_TYPE_VALUES ()))"
    by (rule conjunct1)
  have "FxParam exExternals (exApi 0 1 (None, None) []) 0 0 () = Some (p, s')
         \<and> fst (snd (GetParam (exApi 0 1 (None, None) []) () 0 0))
            < snd (snd (GetParam (exApi 0 1 (None, None) []) () 0 0))
         \<and> (\<forall>st. fst (GetParameterStepSizes (exApi 0 1 (None, None) []) () 0 0) = Some st
               \<longrightarrow> 0 \<le> st)"
    using r ps h by (intro conjI) simp_all
  from inv5[THEN conjunct2, rule_format, OF this]
  have "0 < step p" by (rule conjunct2)
  with r ps have st: "0 < step (fst (the (FxParam exExternals (exApi 0 1 (None, None) []) 0 0 ())))"
    by simp
  from ne nc sm st show ?thesis by (intro conjI)
qed

subsection \<open>Shortened FX names\<close>













subsection \<open>ParamsDialog: snapping to the next text\<close>

lemma unat_counter: "Suc j < 2 ^ 32 \<Longrightarrow> unat (word_of_nat (Suc j) :: 32 word) = Suc j"
proof -
  assume b: "Suc j < 2 ^ 32"
  have "unat (word_of_nat (Suc j) :: 32 word) = Suc j mod 2 ^ LENGTH(32)"
    by (rule unat_of_nat)
  also have "\<dots> = Suc j" using b by (simp del: of_nat_Suc)
  finally show ?thesis .
qed

lemma snap_exit:
  assumes "j \<le> n" "Suc n < 2 ^ 32"
    and "\<forall>i. j \<le> i \<and> i < n \<longrightarrow>
           inRange p (candidate val0 step0 i) \<and> sameText p s vText (candidate val0 step0 i)"
    and "\<not> (inRange p (candidate val0 step0 n) \<and> sameText p s vText (candidate val0 step0 n))"
  shows "snap p s vText val0 step0 (word_of_nat (Suc j)) (candidate val0 step0 j)
     = Some (if inRange p (candidate val0 step0 n)
                  \<and> getValueText p s (candidate val0 step0 n) \<noteq> []
             then candidate val0 step0 n else val0)"
  using assms
proof (induction "n - j" arbitrary: j)
  case 0
  then have jn: "j = n" by simp
  from "0.prems"(4) show ?case
    unfolding jn
    by (subst snap.simps) (auto simp: inRange_def sameText_def Let_def)
next
  case (Suc m)
  then have lt: "j < n" by simp
  with Suc.prems(3) have go: "inRange p (candidate val0 step0 j)"
    "sameText p s vText (candidate val0 step0 j)" by simp_all
  from lt Suc.prems(2) have "Suc j < 2 ^ 32" by simp
  then have u: "unat (word_of_nat (Suc j) :: 32 word) = Suc j" by (rule unat_counter)
  have nx: "val0 + step0 * real (unat (word_of_nat (Suc j) :: 32 word)) = candidate val0 step0 (Suc j)"
    by (simp only: u candidate_def)
  have w: "(word_of_nat (Suc j) :: 32 word) + 1 = word_of_nat (Suc (Suc j))" by simp
  from go have r: "minP p \<le> candidate val0 step0 j \<and> candidate val0 step0 j \<le> maxP p"
    and t: "getValueText p s (candidate val0 step0 j) \<noteq> []"
      "\<not> getValueText p s (candidate val0 step0 j) \<noteq> vText"
    unfolding inRange_def sameText_def by blast+
  have "snap p s vText val0 step0 (word_of_nat (Suc j)) (candidate val0 step0 j)
      = snap p s vText val0 step0 (word_of_nat (Suc j) + 1)
          (val0 + step0 * real (unat (word_of_nat (Suc j) :: 32 word)))"
    by (subst snap.simps) (simp only: r t if_True if_False Let_def simp_thms)
  also have "\<dots> = snap p s vText val0 step0 (word_of_nat (Suc (Suc j))) (candidate val0 step0 (Suc j))"
    by (simp only: nx w)
  also have "\<dots> = Some (if inRange p (candidate val0 step0 n)
                  \<and> getValueText p s (candidate val0 step0 n) \<noteq> []
             then candidate val0 step0 n else val0)"
  proof (rule Suc.hyps(1))
    show "m = n - Suc j" using Suc.hyps(2) by simp
    show "Suc j \<le> n" using lt by simp
    show "Suc n < 2 ^ 32" by (rule Suc.prems(2))
    show "\<forall>i. Suc j \<le> i \<and> i < n \<longrightarrow>
           inRange p (candidate val0 step0 i) \<and> sameText p s vText (candidate val0 step0 i)"
      using Suc.prems(3) by simp
    show "\<not> (inRange p (candidate val0 step0 n) \<and> sameText p s vText (candidate val0 step0 n))"
      by (rule Suc.prems(4))
  qed
  finally show ?case .
qed


lemma candidate_0: "candidate val0 step0 0 = val0"
  by (simp add: candidate_def)

lemma snap_from_start:
  assumes "Suc n < 2 ^ 32"
    and "\<forall>i<n. inRange p (candidate val0 step0 i) \<and> sameText p s vText (candidate val0 step0 i)"
    and "\<not> (inRange p (candidate val0 step0 n) \<and> sameText p s vText (candidate val0 step0 n))"
  shows "snap p s vText val0 step0 1 val0
     = Some (if inRange p (candidate val0 step0 n)
                  \<and> getValueText p s (candidate val0 step0 n) \<noteq> []
             then candidate val0 step0 n else val0)"
proof -
  have "snap p s vText val0 step0 (word_of_nat (Suc 0)) (candidate val0 step0 0)
     = Some (if inRange p (candidate val0 step0 n)
                  \<and> getValueText p s (candidate val0 step0 n) \<noteq> []
             then candidate val0 step0 n else val0)"
    using assms by (intro snap_exit) simp_all
  then show ?thesis by (simp add: candidate_0)
qed



lemma val_updateValue: "val (updateValue x s d) = val d"
  by (simp add: updateValue_def updateValueText_def Let_def)

lemma onSliderChange_commit:
  assumes "newVal \<noteq> val d" "inRange (param d) newVal"
    and "snap (param d) s (valText d) newVal
           (if newVal < val d then - step (param d) else step (param d)) 1 newVal = Some v"
  shows "\<exists>d'. onSliderChange x newVal (d, s) = Some (d', setValue (param d) v s) \<and> val d' = v"
  using assms
  by (simp add: onSliderChange_def Let_def inRange_def val_updateValue not_less)



text \<open>
  C4, amended. When the search from the requested value (in either direction) meets
  a candidate outside the range before a candidate with another text, the slider
  commits the requested value, which lies within the range, and writes it to the
  host: it does not clamp to the boundary.
\<close>

theorem search_leaves_range_commits_request:
  assumes "p = param d" "newVal \<noteq> val d" "inRange p newVal"
    and "step0 = (if newVal < val d then - step p else step p)"
    and "Suc k < 2 ^ 32"
    and "\<forall>i<k. inRange p (candidate newVal step0 i)
               \<and> sameText p s (valText d) (candidate newVal step0 i)"
    and "\<not> inRange p (candidate newVal step0 k)"
  shows "\<exists>d'. onSliderChange x newVal (d, s) = Some (d', setValue p newVal s) \<and> val d' = newVal"
proof -
  from assms(7) have "\<not> (inRange p (candidate newVal step0 k)
           \<and> sameText p s (valText d) (candidate newVal step0 k))" by simp
  from snap_from_start[OF assms(5,6) this] assms(7)
  have "snap p s (valText d) newVal step0 1 newVal = Some newVal" by simp
  then have "snap (param d) s (valText d) newVal
           (if newVal < val d then - step (param d) else step (param d)) 1 newVal = Some newVal"
    unfolding assms(4) assms(1) .
  from onSliderChange_commit[OF assms(2) _ this, of x] assms(3)
  show ?thesis by (simp add: assms(1))
qed


lemma coarseParam_sel:
  "minP coarseParam = 0" "maxP coarseParam = 1" "step coarseParam = 1 / 4"
  "getValueText coarseParam s v = ''x''" "setValue coarseParam v s = v"
  by (simp_all add: coarseParam_def Param_base_def)


lemma coarse_up_range:
  "\<forall>i<4. inRange coarseParam (candidate (1 / 4) (1 / 4) i)
      \<and> sameText coarseParam s ''x'' (candidate (1 / 4) (1 / 4) i)"
proof (intro allI impI)
  fix i :: nat
  assume "i < 4"
  then have "real i \<le> 3" by simp
  then show "inRange coarseParam (candidate (1 / 4) (1 / 4) i)
      \<and> sameText coarseParam s ''x'' (candidate (1 / 4) (1 / 4) i)"
    by (simp add: inRange_def sameText_def candidate_def coarseParam_sel)
qed

lemma coarse_down_range:
  "\<forall>i<4. inRange coarseParam (candidate (3 / 4) (- (1 / 4)) i)
      \<and> sameText coarseParam s ''x'' (candidate (3 / 4) (- (1 / 4)) i)"
proof (intro allI impI)
  fix i :: nat
  assume "i < 4"
  then have "real i \<le> 3" by simp
  then show "inRange coarseParam (candidate (3 / 4) (- (1 / 4)) i)
      \<and> sameText coarseParam s ''x'' (candidate (3 / 4) (- (1 / 4)) i)"
    by (simp add: inRange_def sameText_def candidate_def coarseParam_sel)
qed


lemma coarse_down_snap: "snap coarseParam s ''x'' (3 / 4) (- (1 / 4)) 1 (3 / 4) = Some (3 / 4)"
proof -
  have "\<not> (inRange coarseParam (candidate (3 / 4) (- (1 / 4)) 4)
           \<and> sameText coarseParam s ''x'' (candidate (3 / 4) (- (1 / 4)) 4))"
    by (simp add: inRange_def candidate_def coarseParam_sel)
  from snap_from_start[OF _ coarse_down_range this]
  show ?thesis by (simp add: inRange_def candidate_def coarseParam_sel)
qed


text \<open>
  C4, as stated, fails: with one text for every value, the down key from 1 runs the
  search out of the range at its fifth candidate and commits 3/4, not min.
\<close>

theorem step_down_not_clamped:
  "map_option (apfst val) (translateAccel_slider exExternals VK_DOWN (coarseDialog 1, 1))
     = Some (3 / 4, 3 / 4)
   \<and> \<not> inRange coarseParam (candidate (3 / 4) (- step coarseParam) 4)
   \<and> (3 / 4 :: real) \<noteq> minP coarseParam"
  by (simp add: translateAccel_slider_def onSliderChange_def coarseDialog_def coarseParam_sel
      coarse_down_snap val_updateValue Let_def inRange_def candidate_def)


theorem search_leaves_range_commits_request_witness:
  "(1 / 4 :: real) \<noteq> val (coarseDialog 0) \<and> inRange coarseParam (1 / 4)
   \<and> Suc 4 < 2 ^ 32
   \<and> inRange coarseParam (candidate (1 / 4) (1 / 4) 3)
   \<and> sameText coarseParam 0 (valText (coarseDialog 0)) (candidate (1 / 4) (1 / 4) 3)
   \<and> \<not> inRange coarseParam (candidate (1 / 4) (1 / 4) 4)
   \<and> (\<exists>d'. onSliderChange exExternals (1 / 4) (coarseDialog 0, 0) = Some (d', 1 / 4)
          \<and> val d' = 1 / 4)"
proof -
  have p: "coarseParam = param (coarseDialog 0)" by (simp add: coarseDialog_def)
  have a: "(1 / 4 :: real) \<noteq> val (coarseDialog 0)" "inRange coarseParam (1 / 4)"
    by (simp_all add: coarseDialog_def inRange_def coarseParam_sel)
  have st: "(1 / 4 :: real) = (if 1 / 4 < val (coarseDialog 0) then - step coarseParam
                              else step coarseParam)"
    by (simp add: coarseDialog_def coarseParam_sel)
  have k: "Suc 4 < 2 ^ 32" by simp
  have r: "\<forall>i<4. inRange coarseParam (candidate (1 / 4) (1 / 4) i)
          \<and> sameText coarseParam 0 (valText (coarseDialog 0)) (candidate (1 / 4) (1 / 4) i)"
    using coarse_up_range[of 0] by (simp add: coarseDialog_def)
  have out: "\<not> inRange coarseParam (candidate (1 / 4) (1 / 4) 4)"
    by (simp add: inRange_def candidate_def coarseParam_sel)
  from search_leaves_range_commits_request[OF p a st k r out, of exExternals]
  have "\<exists>d'. onSliderChange exExternals (1 / 4) (coarseDialog 0, 0) = Some (d', 1 / 4)
          \<and> val d' = 1 / 4"
    by (simp add: coarseParam_sel)
  moreover from r have "inRange coarseParam (candidate (1 / 4) (1 / 4) 3)"
    "sameText coarseParam 0 (valText (coarseDialog 0)) (candidate (1 / 4) (1 / 4) 3)"
    by simp_all
  ultimately show ?thesis using a k out by blast
qed

end
